theory Spec2Isabelle
  imports Main "HOL-Library.Word" "HOL-Library.AList"
begin

section \<open>Values, errors and strings\<close>

text \<open>
  Bytes are 8-bit words and a \<open>Uint8Array\<close>'s contents a list of them. A JavaScript
  string is modelled as an Isabelle \<open>string\<close> holding its UTF-8 encoding, so an ASCII
  character is one \<open>char\<close> and every other code point a run of \<open>char\<close>s above 127.
\<close>

type_synonym byte = "8 word"
type_synonym bytes = "byte list"

text \<open>
  The error kinds of the engine (spec section 7), raised by the wasm reader, and the
  values that the TypeScript helper and the JavaScript platform throw.
\<close>

datatype engine_error = OpenError | PathNotFound | DecodeError | IntegrityError | ClosedError

datatype js_error =
    Error string
  | SyntaxError
  | Rejected string
  | Thrown engine_error

text \<open>
  A property of a JavaScript object is a string or some other object; the helper's MIME
  table is declared \<open>Record<string, string>\<close>, but a property read also reaches what the
  table inherits, and those values are functions and objects, named here.
\<close>

datatype js_value = JString string | JObject string

section \<open>MIME detection\<close>

text \<open>\<open>String.prototype.split\<close> with a one-character separator: never an empty array.\<close>

fun split :: "char \<Rightarrow> string \<Rightarrow> string list" where
  "split sep [] = [[]]"
| "split sep (c # cs) =
     (if c = sep then [] # split sep cs
      else (case split sep cs of [] \<Rightarrow> [[c]] | s # ss \<Rightarrow> (c # s) # ss))"

text \<open>
  \<open>toLowerCase\<close> on the ASCII letters. The UTF-8 bytes of every other code point are
  left as they are: its lowercase again holds a code point outside ASCII, except for
  U+212A (Kelvin sign), which lowers to \<open>k\<close>, and \<open>k\<close> occurs in no key looked up below,
  so that no key is reached from a segment that is not ASCII.
\<close>

definition toLowerCase_char :: "char \<Rightarrow> char" where
  "toLowerCase_char c =
     (let n = (of_char c :: nat) in if 65 \<le> n \<and> n \<le> 90 then char_of (n + 32) else c)"

definition toLowerCase :: "string \<Rightarrow> string" where
  "toLowerCase s = map toLowerCase_char s"

text \<open>The own properties of the object literal \<open>MIME_BY_EXT\<close>.\<close>

definition MIME_BY_EXT :: "(string \<times> js_value) list" where
  "MIME_BY_EXT =
     [(''webp'', JString ''image/webp''),
      (''ogg'', JString ''audio/ogg''),
      (''gltf'', JString ''model/gltf+json''),
      (''bin'', JString ''application/octet-stream'')]"

text \<open>
  What an object literal inherits: the properties of \<open>Object.prototype\<close>. The accessor
  \<open>__proto__\<close> yields the prototype of the receiver, which is \<open>Object.prototype\<close> itself.
\<close>

definition Object_prototype :: "(string \<times> js_value) list" where
  "Object_prototype =
     [(''constructor'', JObject ''Object''),
      (''__proto__'', JObject ''Object.prototype''),
      (''hasOwnProperty'', JObject ''Object.prototype.hasOwnProperty''),
      (''isPrototypeOf'', JObject ''Object.prototype.isPrototypeOf''),
      (''propertyIsEnumerable'', JObject ''Object.prototype.propertyIsEnumerable''),
      (''toLocaleString'', JObject ''Object.prototype.toLocaleString''),
      (''toString'', JObject ''Object.prototype.toString''),
      (''valueOf'', JObject ''Object.prototype.valueOf''),
      (''__defineGetter__'', JObject ''Object.prototype.__defineGetter__''),
      (''__defineSetter__'', JObject ''Object.prototype.__defineSetter__''),
      (''__lookupGetter__'', JObject ''Object.prototype.__lookupGetter__''),
      (''__lookupSetter__'', JObject ''Object.prototype.__lookupSetter__'')]"

text \<open>
  The property read \<open>obj[key]\<close> on an object literal: the own property, else the inherited
  one, else \<open>undefined\<close> (\<open>None\<close>).
\<close>

definition get_property :: "(string \<times> js_value) list \<Rightarrow> string \<Rightarrow> js_value option" where
  "get_property obj key =
     (case map_of obj key of
        Some v \<Rightarrow> Some v
      | None \<Rightarrow> map_of Object_prototype key)"

text \<open>
  \<open>path.split(".").pop()?.toLowerCase() ?? ""\<close>, then \<open>MIME_BY_EXT[ext] ?? "application/octet-stream"\<close>.
  The operator \<open>??\<close> falls back on \<open>undefined\<close> and \<open>null\<close> only.
\<close>

definition extension :: "string \<Rightarrow> string" where
  "extension path =
     (case split (CHR ''.'') path of
        [] \<Rightarrow> ''''
      | s # ss \<Rightarrow> toLowerCase (last (s # ss)))"

definition mimeFromPath :: "string \<Rightarrow> js_value" where
  "mimeFromPath path =
     (case get_property MIME_BY_EXT (extension path) of
        Some v \<Rightarrow> v
      | None \<Rightarrow> JString ''application/octet-stream'')"

section \<open>The JavaScript heap, blobs and object URLs\<close>

text \<open>
  Byte buffers live in a heap: a buffer's address is its position, allocation appends,
  and nothing is ever collected. The browser's blob URL store maps each live object URL
  to its blob. The module-level variable \<open>wasmInit\<close> holds the memoised outcome of
  the wasm bootstrap, \<open>None\<close> while it is still \<open>null\<close>.
\<close>

record blob =
  blob_data :: bytes
  blob_type :: js_value

record world =
  buffers :: "bytes list"
  object_urls :: "(string \<times> blob) list"
  minted :: nat
  wasmInit :: "(js_error + unit) option"

definition alloc :: "world \<Rightarrow> bytes \<Rightarrow> nat \<times> world" where
  "alloc w bs = (length (buffers w), w\<lparr>buffers := buffers w @ [bs]\<rparr>)"

definition contents :: "world \<Rightarrow> nat \<Rightarrow> bytes" where
  "contents w a = (if a < length (buffers w) then buffers w ! a else [])"

text \<open>
  What the helper takes from the platform: \<open>new TextDecoder().decode\<close>, \<open>JSON.parse\<close> at
  the declared type \<open>string[]\<close> of \<open>fileIndex\<close>, \<open>fetch\<close> with the response's \<open>ok\<close>,
  \<open>status\<close> and \<open>arrayBuffer()\<close>, the wasm module's initialiser, and the name of the
  n-th object URL the browser mints.
\<close>

record response =
  ok :: bool
  status :: nat
  arrayBuffer :: "js_error + bytes"

record platform =
  decode :: "bytes \<Rightarrow> string"
  JSON_parse :: "string \<Rightarrow> js_error + string list"
  fetch :: "string \<Rightarrow> js_error + response"
  initWasm :: "string option \<Rightarrow> js_error + unit"
  blob_url :: "nat \<Rightarrow> string"

definition createObjectURL :: "platform \<Rightarrow> world \<Rightarrow> blob \<Rightarrow> string \<times> world" where
  "createObjectURL P w b =
     (let u = blob_url P (minted w)
      in (u, w\<lparr>object_urls := object_urls w @ [(u, b)], minted := Suc (minted w)\<rparr>))"

definition revokeObjectURL :: "string \<Rightarrow> world \<Rightarrow> world" where
  "revokeObjectURL u w = w\<lparr>object_urls := filter (\<lambda>(k, b). k \<noteq> u) (object_urls w)\<rparr>"

section \<open>The wasm reader\<close>

text \<open>
  Modelled from the spec: the class \<open>ZstdReader\<close> of \<open>zstd_streaming_reader.js\<close>, of which
  only the declarations (\<open>constructor(data)\<close>, \<open>get_file_list()\<close>, \<open>extract_file(path)\<close>,
  \<open>free()\<close>) are at hand. The index entry, the index and their invariants follow spec
  section 3, validation section 4.1, the frame codec's contract section 4.2, the
  operations section 4.3 and the error kinds section 7. What the spec leaves to the
  implementation is a field of \<open>engine\<close>: the byte layout of the header and the index
  (\<open>read_layout\<close>, \<open>None\<close> on truncated input), the magic value, the supported versions,
  the frame decoder, the digest, and the serialiser of the file list that the helper
  parses as JSON.
\<close>

record index_entry =
  path :: string
  compressed_offset :: nat
  compressed_length :: nat
  decompressed_length :: nat
  checksum :: "bytes option"

record layout =
  layout_magic :: bytes
  layout_version :: nat
  layout_entries :: "index_entry list"
  layout_dictionary :: "bytes option"

record engine =
  read_layout :: "bytes \<Rightarrow> layout option"
  magic :: bytes
  supported :: "nat \<Rightarrow> bool"
  decode_frame :: "bytes \<Rightarrow> nat \<Rightarrow> bytes option \<Rightarrow> bytes option"
  digest :: "bytes \<Rightarrow> bytes"
  file_list_json :: "string list \<Rightarrow> bytes"

record ZstdReader =
  archive :: bytes
  index :: "index_entry list"
  dictionary :: "bytes option"
  freed :: bool

text \<open>
  Modelled from the spec: the validity of an index over an archive of \<open>n\<close> bytes. Every
  range \<open>[compressed_offset, compressed_offset + compressed_length)\<close> lies within the
  archive, no two ranges overlap, and no path occurs twice.
\<close>

definition in_bounds :: "nat \<Rightarrow> index_entry \<Rightarrow> bool" where
  "in_bounds n e \<longleftrightarrow> compressed_offset e + compressed_length e \<le> n"

definition overlapping :: "index_entry \<Rightarrow> index_entry \<Rightarrow> bool" where
  "overlapping a b \<longleftrightarrow>
     0 < compressed_length a \<and> 0 < compressed_length b \<and>
     compressed_offset a < compressed_offset b + compressed_length b \<and>
     compressed_offset b < compressed_offset a + compressed_length a"

fun pairwise_disjoint :: "index_entry list \<Rightarrow> bool" where
  "pairwise_disjoint [] = True"
| "pairwise_disjoint (e # es) = (list_all (\<lambda>x. \<not> overlapping e x) es \<and> pairwise_disjoint es)"

definition valid_index :: "nat \<Rightarrow> index_entry list \<Rightarrow> bool" where
  "valid_index n es \<longleftrightarrow>
     list_all (in_bounds n) es \<and> pairwise_disjoint es \<and> distinct (map path es)"

text \<open>
  Modelled from the spec: the constructor \<open>new ZstdReader(data)\<close>. It rejects, in this
  order, input too short to hold the layout, a magic mismatch, an unsupported version,
  a range out of bounds, overlapping ranges and a duplicate path, each with \<open>OpenError\<close>,
  and keeps its own copy of the archive.
\<close>

definition new_ZstdReader :: "engine \<Rightarrow> bytes \<Rightarrow> js_error + ZstdReader" where
  "new_ZstdReader E data =
     (case read_layout E data of
        None \<Rightarrow> Inl (Thrown OpenError)
      | Some l \<Rightarrow>
          if layout_magic l \<noteq> magic E then Inl (Thrown OpenError)
          else if \<not> supported E (layout_version l) then Inl (Thrown OpenError)
          else if \<not> list_all (in_bounds (length data)) (layout_entries l) then Inl (Thrown OpenError)
          else if \<not> pairwise_disjoint (layout_entries l) then Inl (Thrown OpenError)
          else if \<not> distinct (map path (layout_entries l)) then Inl (Thrown OpenError)
          else Inr \<lparr>archive = data, index = layout_entries l,
                    dictionary = layout_dictionary l, freed = False\<rparr>)"

text \<open>
  Modelled from the spec: \<open>get_file_list()\<close>, the paths of the index in its order,
  serialised; after \<open>free()\<close> it fails with \<open>ClosedError\<close>.
\<close>

definition get_file_list :: "engine \<Rightarrow> ZstdReader \<Rightarrow> js_error + bytes" where
  "get_file_list E r =
     (if freed r then Inl (Thrown ClosedError)
      else Inr (file_list_json E (map path (index r))))"

text \<open>
  Modelled from the spec: \<open>extract_file(path)\<close>. Exact match of the path in the index;
  the frame is the slice of the archive at the entry's range; the decoder's output must
  have the declared length; a declared checksum must equal the digest of the output; the
  result is a \<open>Uint8Array\<close> allocated by this call. The reader itself is not changed.
\<close>

definition extract_file ::
  "engine \<Rightarrow> world \<Rightarrow> ZstdReader \<Rightarrow> string \<Rightarrow> (js_error + nat) \<times> world" where
  "extract_file E w r p =
     (if freed r then (Inl (Thrown ClosedError), w)
      else
        (case find (\<lambda>e. path e = p) (index r) of
           None \<Rightarrow> (Inl (Thrown PathNotFound), w)
         | Some e \<Rightarrow>
             (case decode_frame E
                     (take (compressed_length e) (drop (compressed_offset e) (archive r)))
                     (decompressed_length e) (dictionary r) of
                None \<Rightarrow> (Inl (Thrown DecodeError), w)
              | Some out \<Rightarrow>
                  if length out \<noteq> decompressed_length e then (Inl (Thrown DecodeError), w)
                  else if (case checksum e of None \<Rightarrow> False | Some c \<Rightarrow> digest E out \<noteq> c)
                  then (Inl (Thrown IntegrityError), w)
                  else (case alloc w out of (a, w') \<Rightarrow> (Inr a, w')))))"

text \<open>Modelled from the spec: \<open>free()\<close> releases the reader; it does not fail.\<close>

definition free :: "ZstdReader \<Rightarrow> ZstdReader" where
  "free r = r\<lparr>freed := True\<rparr>"

section \<open>The helper class ZstPackage\<close>

text \<open>
  The private fields of the class. \<open>urlCache\<close> is a \<open>Map\<close>: an association list with
  distinct keys in insertion order.
\<close>

record ZstPackage =
  reader :: ZstdReader
  fileIndex :: "string list"
  urlCache :: "(string \<times> string) list"

text \<open>The private constructor.\<close>

definition new_ZstPackage :: "engine \<Rightarrow> platform \<Rightarrow> bytes \<Rightarrow> js_error + ZstPackage" where
  "new_ZstPackage E P data =
     (case new_ZstdReader E data of
        Inl e \<Rightarrow> Inl e
      | Inr r \<Rightarrow>
          (case get_file_list E r of
             Inl e \<Rightarrow> Inl e
           | Inr listJSON \<Rightarrow>
               (case JSON_parse P (decode P listJSON) of
                  Inl e \<Rightarrow> Inl e
                | Inr parsed \<Rightarrow> Inr \<lparr>reader = r, fileIndex = parsed, urlCache = []\<rparr>)))"

text \<open>
  \<open>ensureWasm\<close>: the first call runs the initialiser and memoises its outcome, also a
  failure; every later call returns the memoised outcome. An empty \<open>wasmURL\<close> is falsy.
\<close>

definition ensureWasm :: "platform \<Rightarrow> world \<Rightarrow> string option \<Rightarrow> (js_error + unit) \<times> world" where
  "ensureWasm P w wasmURL =
     (case wasmInit w of
        None \<Rightarrow>
          (let r = initWasm P (case wasmURL of None \<Rightarrow> None
                                | Some u \<Rightarrow> if u = [] then None else Some u)
           in (r, w\<lparr>wasmInit := Some r\<rparr>))
      | Some r \<Rightarrow> (r, w))"

text \<open>The number in a template string.\<close>

fun decimal :: "nat \<Rightarrow> string" where
  "decimal n =
     (if n < 10 then [''0123456789'' ! n]
      else decimal (n div 10) @ [''0123456789'' ! (n mod 10)])"

declare decimal.simps [simp del]

text \<open>
  The argument of \<open>open\<close>: a URL, or the address of the buffer behind an \<open>ArrayBuffer\<close> or
  a \<open>Uint8Array\<close>. A view made with \<open>new Uint8Array(source)\<close> shares the buffer.
\<close>

datatype source = URL string | ArrayBuffer nat | Uint8Array nat

definition "open" ::
  "engine \<Rightarrow> platform \<Rightarrow> world \<Rightarrow> source \<Rightarrow> string option \<Rightarrow> (js_error + ZstPackage) \<times> world" where
  "open E P w src wasmURL =
     (case ensureWasm P w wasmURL of
        (Inl e, w1) \<Rightarrow> (Inl e, w1)
      | (Inr u, w1) \<Rightarrow>
          (case src of
             URL s \<Rightarrow>
               (case fetch P s of
                  Inl e \<Rightarrow> (Inl e, w1)
                | Inr resp \<Rightarrow>
                    if \<not> ok resp
                    then (Inl (Error (''Failed to fetch '' @ s @ '': '' @ decimal (status resp))), w1)
                    else (case arrayBuffer resp of
                            Inl e \<Rightarrow> (Inl e, w1)
                          | Inr buf \<Rightarrow>
                              (case alloc w1 buf of
                                 (a, w2) \<Rightarrow> (new_ZstPackage E P (contents w2 a), w2))))
           | ArrayBuffer a \<Rightarrow> (new_ZstPackage E P (contents w1 a), w1)
           | Uint8Array a \<Rightarrow> (new_ZstPackage E P (contents w1 a), w1)))"

text \<open>The public methods.\<close>

definition list :: "ZstPackage \<Rightarrow> js_error + string list" where
  "list pkg = Inr (fileIndex pkg)"

definition assertPath :: "ZstPackage \<Rightarrow> string \<Rightarrow> js_error + unit" where
  "assertPath pkg p =
     (if p \<notin> set (fileIndex pkg) then Inl (Error (''Path not found in package: '' @ p))
      else Inr ())"

definition getBytes ::
  "engine \<Rightarrow> world \<Rightarrow> ZstPackage \<Rightarrow> string \<Rightarrow> (js_error + nat) \<times> world" where
  "getBytes E w pkg p =
     (case assertPath pkg p of
        Inl e \<Rightarrow> (Inl e, w)
      | Inr u \<Rightarrow> extract_file E w (reader pkg) p)"

text \<open>The \<open>Blob\<close> constructor copies the bytes and is handed \<open>mime\<close> as its type.\<close>

definition getBlob ::
  "engine \<Rightarrow> world \<Rightarrow> ZstPackage \<Rightarrow> string \<Rightarrow> (js_error + blob) \<times> world" where
  "getBlob E w pkg p =
     (case getBytes E w pkg p of
        (Inl e, w') \<Rightarrow> (Inl e, w')
      | (Inr a, w') \<Rightarrow> (Inr \<lparr>blob_data = contents w' a, blob_type = mimeFromPath p\<rparr>, w'))"

definition getURL ::
  "engine \<Rightarrow> platform \<Rightarrow> world \<Rightarrow> ZstPackage \<Rightarrow> string
     \<Rightarrow> (js_error + string) \<times> world \<times> ZstPackage" where
  "getURL E P w pkg p =
     (case map_of (urlCache pkg) p of
        Some url \<Rightarrow> (Inr url, w, pkg)
      | None \<Rightarrow>
          (case getBlob E w pkg p of
             (Inl e, w') \<Rightarrow> (Inl e, w', pkg)
           | (Inr b, w') \<Rightarrow>
               (case createObjectURL P w' b of
                  (url, w'') \<Rightarrow>
                    (Inr url, w'', pkg\<lparr>urlCache := AList.update p url (urlCache pkg)\<rparr>))))"

definition getText ::
  "engine \<Rightarrow> platform \<Rightarrow> world \<Rightarrow> ZstPackage \<Rightarrow> string \<Rightarrow> (js_error + string) \<times> world" where
  "getText E P w pkg p =
     (case getBytes E w pkg p of
        (Inl e, w') \<Rightarrow> (Inl e, w')
      | (Inr a, w') \<Rightarrow> (Inr (decode P (contents w' a)), w'))"

definition dispose :: "world \<Rightarrow> ZstPackage \<Rightarrow> world \<times> ZstPackage" where
  "dispose w pkg =
     (fold revokeObjectURL (map snd (urlCache pkg)) w,
      pkg\<lparr>urlCache := [], reader := free (reader pkg)\<rparr>)"

text \<open>
  The encoding stub. Its parameter is commented out in the source and a caller's
  argument is dropped; the dash of the message is U+2014.
\<close>

definition encode :: "(string \<times> bytes) list \<Rightarrow> js_error + bytes" where
  "encode files =
     Inl (Error (''Encode not implemented '' @ [CHR 0xE2, CHR 0x80, CHR 0x94] @
                 '' build wasm for zstd-encoder and wire it up here.''))"

section \<open>Clients of a package\<close>

text \<open>
  What a caller can do with a package between two calls: the public methods, and a
  write into any byte buffer, such as one that \<open>getBytes\<close> returned. \<open>run\<close> performs
  a sequence of such steps and drops their results.
\<close>

datatype call =
    List
  | GetBytes string
  | GetBlob string
  | GetURL string
  | GetText string
  | Dispose
  | Write nat bytes

fun perform :: "engine \<Rightarrow> platform \<Rightarrow> call \<Rightarrow> world \<times> ZstPackage \<Rightarrow> world \<times> ZstPackage" where
  "perform E P List (w, pkg) = (w, pkg)"
| "perform E P (GetBytes p) (w, pkg) = (snd (getBytes E w pkg p), pkg)"
| "perform E P (GetBlob p) (w, pkg) = (snd (getBlob E w pkg p), pkg)"
| "perform E P (GetURL p) (w, pkg) = snd (getURL E P w pkg p)"
| "perform E P (GetText p) (w, pkg) = (snd (getText E P w pkg p), pkg)"
| "perform E P Dispose (w, pkg) = dispose w pkg"
| "perform E P (Write a bs) (w, pkg) = (w\<lparr>buffers := (buffers w)[a := bs]\<rparr>, pkg)"

definition run :: "engine \<Rightarrow> platform \<Rightarrow> call list \<Rightarrow> world \<times> ZstPackage \<Rightarrow> world \<times> ZstPackage" where
  "run E P cs s = fold (perform E P) cs s"

text \<open>The bytes behind the buffer that a call of \<open>getBytes\<close> returned.\<close>

definition fetched :: "(js_error + nat) \<times> world \<Rightarrow> js_error + bytes" where
  "fetched res =
     (case res of
        (Inl e, w') \<Rightarrow> Inl e
      | (Inr a, w') \<Rightarrow> Inr (contents w' a))"

text \<open>
  The platform reads back the reader's serialisation of one list of paths: \<open>JSON.parse\<close>
  of the decoded text of that file list is that list.
\<close>

definition reads_back :: "engine \<Rightarrow> platform \<Rightarrow> string list \<Rightarrow> bool" where
  "reads_back E P ps \<longleftrightarrow> JSON_parse P (decode P (file_list_json E ps)) = Inr ps"

text \<open>
  An archive that the reader accepts: the layout can be read, magic and version are the
  expected ones, and the index is valid for the archive's length.
\<close>

definition well_formed :: "engine \<Rightarrow> bytes \<Rightarrow> bool" where
  "well_formed E data \<longleftrightarrow>
     (case read_layout E data of
        None \<Rightarrow> False
      | Some l \<Rightarrow>
          layout_magic l = magic E \<and> supported E (layout_version l) \<and>
          valid_index (length data) (layout_entries l))"

text \<open>
  A package that is ready to be queried: a live reader over a valid index of its
  archive, the file index equal to the index's paths in their order, no URL cached.
\<close>

definition ready :: "engine \<Rightarrow> bytes \<Rightarrow> ZstPackage \<Rightarrow> bool" where
  "ready E data pkg \<longleftrightarrow>
     archive (reader pkg) = data \<and> \<not> freed (reader pkg) \<and>
     map_option layout_entries (read_layout E data) = Some (index (reader pkg)) \<and>
     valid_index (length data) (index (reader pkg)) \<and>
     fileIndex pkg = map path (index (reader pkg)) \<and>
     urlCache pkg = []"

text \<open>
  Encoding files, opening the result from a fresh buffer and extracting one path.
\<close>

definition roundtrip ::
  "engine \<Rightarrow> platform \<Rightarrow> world \<Rightarrow> (string \<times> bytes) list \<Rightarrow> string \<Rightarrow> js_error + bytes" where
  "roundtrip E P w files p =
     (case encode files of
        Inl e \<Rightarrow> Inl e
      | Inr arch \<Rightarrow>
          (case alloc w arch of
             (a, w1) \<Rightarrow>
               (case open E P w1 (Uint8Array a) None of
                  (Inl e, w2) \<Rightarrow> Inl e
                | (Inr pkg, w2) \<Rightarrow> fetched (getBytes E w2 pkg p))))"

section \<open>A small engine and platform\<close>

text \<open>
  One choice of what the spec leaves open, to run the model on: every unsigned field of
  the layout is one byte, the magic is \<open>ZPK\<close>, the only version is 1, entries carry no
  checksum, frames are stored as they are, and the file list is a JSON array of strings
  in which the quote, the backslash and the control characters are escaped.
\<close>

definition chars_of :: "bytes \<Rightarrow> string" where
  "chars_of bs = map (\<lambda>b. char_of (unat b)) bs"

definition bytes_of :: "string \<Rightarrow> bytes" where
  "bytes_of s = map (\<lambda>c. word_of_nat (of_char c)) s"

definition hex_digit :: "nat \<Rightarrow> char" where
  "hex_digit n = ''0123456789abcdef'' ! (n mod 16)"

definition json_escape :: "char \<Rightarrow> string" where
  "json_escape c =
     (if c = CHR 0x22 \<or> c = CHR 0x5C then [CHR 0x5C, c]
      else if (of_char c :: nat) < 0x20
      then [CHR 0x5C, CHR ''u'', CHR ''0'', CHR ''0'',
            hex_digit (of_char c div 16), hex_digit (of_char c mod 16)]
      else [c])"

definition json_string :: "string \<Rightarrow> string" where
  "json_string s = CHR 0x22 # concat (map json_escape s) @ [CHR 0x22]"

fun json_elements :: "string list \<Rightarrow> string" where
  "json_elements [] = '']''"
| "json_elements [s] = json_string s @ '']''"
| "json_elements (s # t # ss) = json_string s @ '','' @ json_elements (t # ss)"

definition json_array :: "string list \<Rightarrow> string" where
  "json_array ss = ''['' @ json_elements ss"

fun read_entries :: "nat \<Rightarrow> bytes \<Rightarrow> index_entry list option" where
  "read_entries 0 bs = Some []"
| "read_entries (Suc n) [] = None"
| "read_entries (Suc n) (l # bs) =
     (case drop (unat l) bs of
        off # clen # dlen # rest \<Rightarrow>
          map_option
            ((#) \<lparr>path = chars_of (take (unat l) bs), compressed_offset = unat off,
                  compressed_length = unat clen, decompressed_length = unat dlen,
                  checksum = None\<rparr>)
            (read_entries n rest)
      | _ \<Rightarrow> None)"

definition read_stored :: "bytes \<Rightarrow> layout option" where
  "read_stored bs =
     (case bs of
        m1 # m2 # m3 # v # n # rest \<Rightarrow>
          map_option
            (\<lambda>es. \<lparr>layout_magic = [m1, m2, m3], layout_version = unat v,
                   layout_entries = es, layout_dictionary = None\<rparr>)
            (read_entries (unat n) rest)
      | _ \<Rightarrow> None)"

definition stored_engine :: engine where
  "stored_engine =
     \<lparr>read_layout = read_stored,
      magic = bytes_of ''ZPK'',
      supported = (\<lambda>v. v = 1),
      decode_frame = (\<lambda>frame n d. Some frame),
      digest = (\<lambda>out. []),
      file_list_json = (\<lambda>ps. bytes_of (json_array ps))\<rparr>"

text \<open>
  A platform to run the model on. Its \<open>decode\<close> is the UTF-8 decoder of \<open>TextDecoder\<close>
  with the default options: a leading byte order mark is dropped, a well-formed sequence
  is passed on, and every maximal ill-formed part (a stray or missing continuation byte,
  an overlong form, a surrogate, a lead byte beyond F4) becomes U+FFFD, after which the
  offending byte is read again as the start of a sequence.
\<close>

definition replacement :: string where
  "replacement = [CHR 0xEF, CHR 0xBF, CHR 0xBD]"

datatype lead = Ascii | Lead nat nat nat | Invalid

definition utf8_lead :: "nat \<Rightarrow> lead" where
  "utf8_lead b =
     (if b \<le> 0x7F then Ascii
      else if 0xC2 \<le> b \<and> b \<le> 0xDF then Lead 1 0x80 0xBF
      else if b = 0xE0 then Lead 2 0xA0 0xBF
      else if b = 0xED then Lead 2 0x80 0x9F
      else if 0xE1 \<le> b \<and> b \<le> 0xEF then Lead 2 0x80 0xBF
      else if b = 0xF0 then Lead 3 0x90 0xBF
      else if b = 0xF4 then Lead 3 0x80 0x8F
      else if 0xF1 \<le> b \<and> b \<le> 0xF3 then Lead 3 0x80 0xBF
      else Invalid)"

fun utf8_decode :: "string \<Rightarrow> nat \<Rightarrow> nat \<Rightarrow> nat \<Rightarrow> bytes \<Rightarrow> string" where
  "utf8_decode seen needed lo hi [] = (if needed = 0 then [] else replacement)"
| "utf8_decode seen needed lo hi (b # bs) =
     (if needed \<noteq> 0 \<and> lo \<le> unat b \<and> unat b \<le> hi
      then (if needed = 1
            then seen @ [char_of (unat b)] @ utf8_decode [] 0 0x80 0xBF bs
            else utf8_decode (seen @ [char_of (unat b)]) (needed - 1) 0x80 0xBF bs)
      else (if needed \<noteq> 0 then replacement else []) @
           (case utf8_lead (unat b) of
              Ascii \<Rightarrow> char_of (unat b) # utf8_decode [] 0 0x80 0xBF bs
            | Lead n l h \<Rightarrow> utf8_decode [char_of (unat b)] n l h bs
            | Invalid \<Rightarrow> replacement @ utf8_decode [] 0 0x80 0xBF bs))"

definition TextDecoder_decode :: "bytes \<Rightarrow> string" where
  "TextDecoder_decode bs =
     utf8_decode [] 0 0x80 0xBF (if take 3 bs = [0xEF, 0xBB, 0xBF] then drop 3 bs else bs)"

text \<open>
  Its \<open>JSON_parse\<close> follows the JSON grammar for an array of strings: white space (space,
  tab, line feed, carriage return) around every token; in a string no raw character
  below U+0020; the escapes for the quote, the backslash, the slash, \<open>b\<close>, \<open>f\<close>, \<open>n\<close>, \<open>r\<close>,
  \<open>t\<close> and \<open>u\<close> with four hexadecimal digits, where two such escapes that form a
  surrogate pair give one code point. A string is collected as raw characters and escaped UTF-16 code
  units and rendered in UTF-8 at its closing quote; a lone surrogate has no UTF-8
  encoding and is rendered as U+FFFD, as the platform does when it encodes such a
  string. A text that is JSON but no array of strings has no value of the declared type
  \<open>string[]\<close> of \<open>fileIndex\<close>; like a text that is no JSON, it is answered with
  \<open>SyntaxError\<close>.
\<close>

definition utf8_encode :: "nat \<Rightarrow> string" where
  "utf8_encode cp =
     (if cp < 0x80 then [char_of cp]
      else if cp < 0x800 then [char_of (0xC0 + cp div 64), char_of (0x80 + cp mod 64)]
      else if cp < 0x10000
      then [char_of (0xE0 + cp div 4096), char_of (0x80 + cp div 64 mod 64),
            char_of (0x80 + cp mod 64)]
      else [char_of (0xF0 + cp div 262144), char_of (0x80 + cp div 4096 mod 64),
            char_of (0x80 + cp div 64 mod 64), char_of (0x80 + cp mod 64)])"

fun render :: "(char + nat) list \<Rightarrow> string" where
  "render [] = []"
| "render (Inl c # xs) = c # render xs"
| "render (Inr hi # Inr lo # xs) =
     (if 0xD800 \<le> hi \<and> hi \<le> 0xDBFF \<and> 0xDC00 \<le> lo \<and> lo \<le> 0xDFFF
      then utf8_encode (0x10000 + (hi - 0xD800) * 1024 + (lo - 0xDC00)) @ render xs
      else (if 0xD800 \<le> hi \<and> hi \<le> 0xDFFF then replacement else utf8_encode hi) @
           render (Inr lo # xs))"
| "render (Inr u # xs) =
     (if 0xD800 \<le> u \<and> u \<le> 0xDFFF then replacement else utf8_encode u) @ render xs"

definition hex_value :: "char \<Rightarrow> nat option" where
  "hex_value c =
     (let n = (of_char c :: nat)
      in if 48 \<le> n \<and> n \<le> 57 then Some (n - 48)
         else if 65 \<le> n \<and> n \<le> 70 then Some (n - 55)
         else if 97 \<le> n \<and> n \<le> 102 then Some (n - 87)
         else None)"

definition whitespace :: "char \<Rightarrow> bool" where
  "whitespace c \<longleftrightarrow> c = CHR 0x20 \<or> c = CHR 0x09 \<or> c = CHR 0x0A \<or> c = CHR 0x0D"

definition escape_value :: "char \<Rightarrow> char option" where
  "escape_value c =
     (if c = CHR 0x22 \<or> c = CHR 0x5C \<or> c = CHR ''/'' then Some c
      else if c = CHR ''b'' then Some (CHR 0x08)
      else if c = CHR ''f'' then Some (CHR 0x0C)
      else if c = CHR ''n'' then Some (CHR 0x0A)
      else if c = CHR ''r'' then Some (CHR 0x0D)
      else if c = CHR ''t'' then Some (CHR 0x09)
      else None)"

datatype scan_state =
  Start | Opened | Element | InString | Escaped | Unicode nat nat | After | Done

type_synonym scanner = "scan_state \<times> (char + nat) list \<times> string list"

fun json_step :: "scanner \<Rightarrow> char \<Rightarrow> scanner option" where
  "json_step (Start, cur, acc) c =
     (if whitespace c then Some (Start, [], acc)
      else if c = CHR ''['' then Some (Opened, [], acc)
      else None)"
| "json_step (Opened, cur, acc) c =
     (if whitespace c then Some (Opened, [], acc)
      else if c = CHR '']'' then Some (Done, [], acc)
      else if c = CHR 0x22 then Some (InString, [], acc)
      else None)"
| "json_step (Element, cur, acc) c =
     (if whitespace c then Some (Element, [], acc)
      else if c = CHR 0x22 then Some (InString, [], acc)
      else None)"
| "json_step (InString, cur, acc) c =
     (if c = CHR 0x22 then Some (After, [], acc @ [render cur])
      else if c = CHR 0x5C then Some (Escaped, cur, acc)
      else if (of_char c :: nat) < 0x20 then None
      else Some (InString, cur @ [Inl c], acc))"
| "json_step (Escaped, cur, acc) c =
     (if c = CHR ''u'' then Some (Unicode 4 0, cur, acc)
      else map_option (\<lambda>e. (InString, cur @ [Inl e], acc)) (escape_value c))"
| "json_step (Unicode k v, cur, acc) c =
     map_option
       (\<lambda>d. if k \<le> 1 then (InString, cur @ [Inr (v * 16 + d)], acc)
            else (Unicode (k - 1) (v * 16 + d), cur, acc))
       (hex_value c)"
| "json_step (After, cur, acc) c =
     (if whitespace c then Some (After, [], acc)
      else if c = CHR '','' then Some (Element, [], acc)
      else if c = CHR '']'' then Some (Done, [], acc)
      else None)"
| "json_step (Done, cur, acc) c = (if whitespace c then Some (Done, [], acc) else None)"

fun json_scan :: "scanner \<Rightarrow> string \<Rightarrow> string list option" where
  "json_scan (st, cur, acc) [] = (if st = Done then Some acc else None)"
| "json_scan s (c # cs) =
     (case json_step s c of
        None \<Rightarrow> None
      | Some s' \<Rightarrow> json_scan s' cs)"

definition JSON_parse_strings :: "string \<Rightarrow> js_error + string list" where
  "JSON_parse_strings s =
     (case json_scan (Start, [], []) s of
        None \<Rightarrow> Inl SyntaxError
      | Some ps \<Rightarrow> Inr ps)"

text \<open>
  The network is down, the wasm module loads, and the n-th object URL is \<open>blob:\<close>
  followed by n. In \<open>unloaded_platform\<close> the wasm module fails to load.
\<close>

definition plain_platform :: platform where
  "plain_platform =
     \<lparr>decode = TextDecoder_decode,
      JSON_parse = JSON_parse_strings,
      fetch = (\<lambda>u. Inl (Rejected ''offline'')),
      initWasm = (\<lambda>u. Inr ()),
      blob_url = (\<lambda>n. ''blob:'' @ decimal n)\<rparr>"

definition unloaded_platform :: platform where
  "unloaded_platform = plain_platform\<lparr>initWasm := (\<lambda>u. Inl (Rejected ''wasm''))\<rparr>"

text \<open>A path of printable ASCII characters.\<close>

definition printable :: "string \<Rightarrow> bool" where
  "printable s \<longleftrightarrow>
     list_all (\<lambda>c. 0x20 \<le> (of_char c :: nat) \<and> (of_char c :: nat) < 0x7F) s"

text \<open>
  The archive of the spec's example scenario, \<open>a.bin\<close> holding 1, 2, 3 and \<open>b.bin\<close>
  holding 9, 9, in that layout; a world whose only buffer holds it; and the package that
  opening it gives.
\<close>

definition example_archive :: bytes where
  "example_archive =
     bytes_of ''ZPK'' @ [1, 2] @
     [5] @ bytes_of ''a.bin'' @ [23, 3, 3] @
     [5] @ bytes_of ''b.bin'' @ [26, 2, 2] @
     [1, 2, 3] @ [9, 9]"

definition example_world :: world where
  "example_world =
     \<lparr>buffers = [example_archive], object_urls = [], minted = 0, wasmInit = None\<rparr>"

definition example_index :: "index_entry list" where
  "example_index =
     [\<lparr>path = ''a.bin'', compressed_offset = 23, compressed_length = 3,
       decompressed_length = 3, checksum = None\<rparr>,
      \<lparr>path = ''b.bin'', compressed_offset = 26, compressed_length = 2,
       decompressed_length = 2, checksum = None\<rparr>]"

definition example_package :: ZstPackage where
  "example_package =
     \<lparr>reader = \<lparr>archive = example_archive, index = example_index,
                 dictionary = None, freed = False\<rparr>,
      fileIndex = [''a.bin'', ''b.bin''],
      urlCache = []\<rparr>"

text \<open>The example archive cut short by its last byte: the second range ends beyond it.\<close>

definition truncated_archive :: bytes where
  "truncated_archive = take 27 example_archive"

text \<open>A package over an archive whose single entry is named \<open>model.constructor\<close>.\<close>

definition inherited_key_package :: ZstPackage where
  "inherited_key_package =
     \<lparr>reader = \<lparr>archive = [1],
                 index = [\<lparr>path = ''model.constructor'', compressed_offset = 0,
                           compressed_length = 1, decompressed_length = 1,
                           checksum = None\<rparr>],
                 dictionary = None, freed = False\<rparr>,
      fileIndex = [''model.constructor''],
      urlCache = []\<rparr>"

section \<open>Properties of MIME detection\<close>

lemma split_not_Nil: "split sep s \<noteq> []"
  by (induction s) (auto split: list.splits)

lemma extension_last: "extension p = toLowerCase (last (split (CHR ''.'') p))"
  using split_not_Nil [of "CHR ''.''" p]
  by (cases "split (CHR ''.'') p") (simp_all add: extension_def)

lemma toLowerCase_char_idem: "toLowerCase_char (toLowerCase_char c) = toLowerCase_char c"
proof (cases "65 \<le> (of_char c :: nat) \<and> (of_char c :: nat) \<le> 90")
  case True
  then have "(of_char (char_of (of_char c + 32 :: nat)) :: nat) = of_char c + 32"
    by (simp add: of_char_of)
  with True show ?thesis by (simp add: toLowerCase_char_def Let_def)
next
  case False
  then have "toLowerCase_char c = c" by (auto simp: toLowerCase_char_def Let_def)
  then show ?thesis by simp
qed

lemma extension_lower: "c \<in> set (extension p) \<Longrightarrow> toLowerCase_char c = c"
  by (auto simp: extension_last toLowerCase_def toLowerCase_char_idem)

text \<open>
  Away from the two inherited keys that are all lower case, the type attached to a path
  is the table's entry for the lowercased last segment, and the default outside the table.
\<close>

lemma mimeFromPath_table:
  assumes "extension p \<noteq> ''constructor''" and "extension p \<noteq> ''__proto__''"
  shows "mimeFromPath p =
           (case map_of MIME_BY_EXT (extension p) of
              Some v \<Rightarrow> v
            | None \<Rightarrow> JString ''application/octet-stream'')"
proof (cases "map_of MIME_BY_EXT (extension p)")
  case (Some v)
  then show ?thesis by (simp add: mimeFromPath_def get_property_def)
next
  case None
  have low: "toLowerCase_char CHR ''O'' \<noteq> CHR ''O''" "toLowerCase_char CHR ''P'' \<noteq> CHR ''P''"
    "toLowerCase_char CHR ''E'' \<noteq> CHR ''E''" "toLowerCase_char CHR ''L'' \<noteq> CHR ''L''"
    "toLowerCase_char CHR ''S'' \<noteq> CHR ''S''" "toLowerCase_char CHR ''G'' \<noteq> CHR ''G''"
    by code_simp+
  have "map_of Object_prototype (extension p) = None"
    using assms low extension_lower [of _ p] by (auto simp: Object_prototype_def)
  with None show ?thesis by (simp add: mimeFromPath_def get_property_def)
qed

text \<open>
  Claim C9. The type that \<open>getBlob\<close> attaches is meant to be the table's entry for the
  lowercased last dot-separated segment and \<open>application/octet-stream\<close> for every other
  extension. For the path \<open>model.constructor\<close> the segment is \<open>constructor\<close>, the
  property read finds the inherited \<open>Object.prototype.constructor\<close>, which is neither
  \<open>undefined\<close> nor \<open>null\<close>, and \<open>mimeFromPath\<close> returns that function instead of the default.
\<close>

theorem mimeFromPath_inherited_key:
  "mimeFromPath ''model.constructor'' = JObject ''Object'' \<and>
   map_of MIME_BY_EXT (extension ''model.constructor'') = None \<and>
   mimeFromPath ''model.constructor'' \<noteq> JString ''application/octet-stream'' \<and>
   fst (getBlob stored_engine example_world inherited_key_package ''model.constructor'') =
     Inr \<lparr>blob_data = [1], blob_type = JObject ''Object''\<rparr>"
  by code_simp

section \<open>The small platform on some inputs\<close>

lemma chars_of_bytes_of: "chars_of (bytes_of s) = s"
  by (induction s) (simp_all add: chars_of_def bytes_of_def unat_of_nat)

text \<open>
  The decoder drops a leading byte order mark and replaces a stray byte and a sequence
  cut short; the parser skips white space, reads an escape and refuses a raw tab inside
  a string.
\<close>

lemma TextDecoder_decode_examples:
  "TextDecoder_decode [0xEF, 0xBB, 0xBF, 0x61] = ''a''"
  "TextDecoder_decode [0x61, 0xFF, 0xE2, 0x82] = ''a'' @ replacement @ replacement"
  by code_simp+

lemma JSON_parse_strings_examples:
  "JSON_parse_strings ('' [ '' @ [CHR 0x22] @ ''a'' @ [CHR 0x5C] @ ''n'' @ [CHR 0x22] @ '' ] '') =
     Inr [''a'' @ [CHR 0x0A]]"
  "JSON_parse_strings (''['' @ [CHR 0x22, CHR 0x09, CHR 0x22] @ '']'') = Inl SyntaxError"
  "JSON_parse_strings (''['' @ [CHR 0x22] @ ''a'' @ [CHR 0x22] @ '',]'') = Inl SyntaxError"
  by code_simp+

text \<open>On ASCII the decoder is the identity.\<close>

lemma unat_byte_of_char: "(of_char c :: nat) < 0x80 \<Longrightarrow> unat (word_of_nat (of_char c) :: byte) = of_char c"
  by (simp add: unat_of_nat)

lemma utf8_decode_ascii:
  "list_all (\<lambda>c. (of_char c :: nat) < 0x80) s \<Longrightarrow>
   utf8_decode [] 0 0x80 0xBF (bytes_of s @ bs) = s @ utf8_decode [] 0 0x80 0xBF bs"
  by (induction s) (simp_all add: bytes_of_def unat_byte_of_char utf8_lead_def)

lemma no_mark_ascii:
  assumes "list_all (\<lambda>c. (of_char c :: nat) < 0x80) s"
  shows "take 3 (bytes_of s) \<noteq> [0xEF, 0xBB, 0xBF]"
proof (cases s)
  case Nil
  then show ?thesis by (simp add: bytes_of_def)
next
  case (Cons c cs)
  with assms have "unat (word_of_nat (of_char c) :: byte) < 0x80"
    by (simp add: unat_byte_of_char)
  then have "(word_of_nat (of_char c) :: byte) \<noteq> 0xEF"
    by auto
  with Cons show ?thesis by (simp add: bytes_of_def)
qed

lemma TextDecoder_decode_ascii:
  assumes "list_all (\<lambda>c. (of_char c :: nat) < 0x80) s"
  shows "TextDecoder_decode (bytes_of s) = s"
  using utf8_decode_ascii [OF assms, of "[]"] no_mark_ascii [OF assms]
  by (simp add: TextDecoder_decode_def)

lemma render_raw: "render (map Inl s) = s"
  by (induction s) simp_all

lemma json_scan_body:
  "printable s \<Longrightarrow>
   json_scan (InString, map Inl t, acc) (concat (map json_escape s) @ rest) =
   json_scan (InString, map Inl (t @ s), acc) rest"
proof (induction s arbitrary: t)
  case Nil
  then show ?case by simp
next
  case (Cons c s)
  from Cons.prems have c: "\<not> (of_char c :: nat) < 0x20" and s: "printable s"
    by (auto simp: printable_def)
  have "json_scan (InString, map Inl t, acc) (json_escape c @ rest') =
        json_scan (InString, map Inl (t @ [c]), acc) rest'" for rest'
    using c by (simp add: json_escape_def escape_value_def)
  from this [of "concat (map json_escape s) @ rest"] Cons.IH [OF s, of "t @ [c]"]
  show ?case by simp
qed

lemma json_scan_string:
  assumes "st = Opened \<or> st = Element" and "printable s"
  shows "json_scan (st, cur, acc) (json_string s @ rest) = json_scan (After, [], acc @ [s]) rest"
proof -
  have "json_scan (st, cur, acc) (json_string s @ rest) =
        json_scan (InString, map Inl [], acc) (concat (map json_escape s) @ CHR 0x22 # rest)"
    using assms(1) by (auto simp: json_string_def whitespace_def)
  also have "\<dots> = json_scan (InString, map Inl s, acc) (CHR 0x22 # rest)"
    using json_scan_body [OF assms(2), of "[]" acc "CHR 0x22 # rest"] by simp
  also have "\<dots> = json_scan (After, [], acc @ [s]) rest"
    by (simp add: render_raw)
  finally show ?thesis .
qed

lemma json_scan_elements:
  "st = Opened \<or> (st = Element \<and> ss \<noteq> []) \<Longrightarrow> list_all printable ss \<Longrightarrow>
   json_scan (st, cur, acc) (json_elements ss) = Some (acc @ ss)"
proof (induction ss arbitrary: st cur acc rule: json_elements.induct)
  case 1
  then show ?case by (simp add: whitespace_def)
next
  case (2 s)
  then show ?case by (auto simp: json_scan_string whitespace_def)
next
  case (3 s t ss)
  from "3.prems" have p: "printable s" and ps: "list_all printable (t # ss)"
    and st: "st = Opened \<or> st = Element"
    by auto
  have "json_scan (st, cur, acc) (json_elements (s # t # ss)) =
        json_scan (After, [], acc @ [s]) ('','' @ json_elements (t # ss))"
    using json_scan_string [OF st p] by simp
  also have "\<dots> = json_scan (Element, [], acc @ [s]) (json_elements (t # ss))"
    by (simp add: whitespace_def)
  also have "\<dots> = Some ((acc @ [s]) @ t # ss)"
    by (rule "3.IH") (use ps in simp_all)
  finally show ?case by simp
qed

lemma JSON_parse_strings_json_array:
  "list_all printable ss \<Longrightarrow> JSON_parse_strings (json_array ss) = Inr ss"
  using json_scan_elements [of Opened ss "[]" "[]"]
  by (simp add: JSON_parse_strings_def json_array_def whitespace_def)

lemma json_string_ascii:
  "printable s \<Longrightarrow> list_all (\<lambda>c. (of_char c :: nat) < 0x80) (json_string s)"
  by (induction s) (auto simp: json_string_def json_escape_def printable_def)

lemma json_elements_ascii:
  "list_all printable ss \<Longrightarrow> list_all (\<lambda>c. (of_char c :: nat) < 0x80) (json_elements ss)"
  by (induction ss rule: json_elements.induct) (simp_all add: json_string_ascii)

text \<open>
  The platform reads back the small engine's file list for every list of paths made of
  printable ASCII characters.
\<close>

lemma reads_back_printable:
  assumes "list_all printable ps"
  shows "reads_back stored_engine plain_platform ps"
proof -
  from json_elements_ascii [OF assms]
  have "list_all (\<lambda>c. (of_char c :: nat) < 0x80) (json_array ps)"
    by (simp add: json_array_def)
  from TextDecoder_decode_ascii [OF this] JSON_parse_strings_json_array [OF assms]
  show ?thesis
    by (simp add: reads_back_def stored_engine_def plain_platform_def)
qed

text \<open>The platform reads back the file list of the example archive.\<close>

lemma example_reads_back:
  "reads_back stored_engine plain_platform (map path (index (reader example_package)))"
  by code_simp

section \<open>Facts about the reader and the methods\<close>

text \<open>Two entries overlap exactly when their half-open byte ranges meet.\<close>

lemma overlapping_iff:
  "overlapping a b \<longleftrightarrow>
     {compressed_offset a ..< compressed_offset a + compressed_length a} \<inter>
     {compressed_offset b ..< compressed_offset b + compressed_length b} \<noteq> {}"
  unfolding overlapping_def
  by (auto simp: ivl_disj_int Int_atLeastLessThan intro: exI)

lemma getBytes_missing:
  "p \<notin> set (fileIndex pkg) \<Longrightarrow>
   getBytes E w pkg p = (Inl (Error (''Path not found in package: '' @ p)), w)"
  by (simp add: getBytes_def assertPath_def)

lemma getBytes_indexed:
  "p \<in> set (fileIndex pkg) \<Longrightarrow> getBytes E w pkg p = extract_file E w (reader pkg) p"
  by (simp add: getBytes_def assertPath_def)

lemma extract_file_result:
  "extract_file E w r p = (res, w') \<Longrightarrow>
     (case res of
        Inl e \<Rightarrow> w' = w
      | Inr a \<Rightarrow> a = length (buffers w) \<and> w' = w\<lparr>buffers := buffers w @ [contents w' a]\<rparr>)"
  by (auto simp: extract_file_def alloc_def contents_def split: option.splits if_splits)

lemma fetched_extract_file:
  "fetched (extract_file E w r p) = fetched (extract_file E v r p)"
  by (simp add: extract_file_def fetched_def alloc_def contents_def split: option.splits)

lemma getBytes_result:
  "getBytes E w pkg p = (res, w') \<Longrightarrow>
     (case res of
        Inl e \<Rightarrow> w' = w
      | Inr a \<Rightarrow> a = length (buffers w) \<and> w' = w\<lparr>buffers := buffers w @ [contents w' a]\<rparr>)"
  using extract_file_result [of E w "reader pkg" p res w']
  by (cases "p \<in> set (fileIndex pkg)") (auto simp: getBytes_missing getBytes_indexed)

lemma fetched_getBytes:
  "reader pkg' = reader pkg \<Longrightarrow> fileIndex pkg' = fileIndex pkg \<Longrightarrow>
   fetched (getBytes E w' pkg' p) = fetched (getBytes E w pkg p)"
  using fetched_extract_file [of E w' "reader pkg" p w]
  by (cases "p \<in> set (fileIndex pkg)") (simp_all add: getBytes_missing getBytes_indexed fetched_def)

section \<open>What a sequence of calls preserves\<close>

lemma perform_fileIndex: "fileIndex (snd (perform E P c s)) = fileIndex (snd s)"
  by (cases c; cases s)
    (auto simp: getURL_def dispose_def split: option.splits sum.splits prod.splits)

lemma run_fileIndex: "fileIndex (snd (run E P cs s)) = fileIndex (snd s)"
  unfolding run_def by (induction cs arbitrary: s) (simp_all add: perform_fileIndex)

lemma perform_reader: "c \<noteq> Dispose \<Longrightarrow> reader (snd (perform E P c s)) = reader (snd s)"
  by (cases c; cases s)
    (auto simp: getURL_def split: option.splits sum.splits prod.splits)

lemma run_reader: "Dispose \<notin> set cs \<Longrightarrow> reader (snd (run E P cs s)) = reader (snd s)"
  unfolding run_def by (induction cs arbitrary: s) (auto simp: perform_reader)

lemma perform_freed: "freed (reader (snd s)) \<Longrightarrow> freed (reader (snd (perform E P c s)))"
  by (cases c; cases s)
    (auto simp: getURL_def dispose_def free_def split: option.splits sum.splits prod.splits)

lemma run_freed: "freed (reader (snd s)) \<Longrightarrow> freed (reader (snd (run E P cs s)))"
  unfolding run_def by (induction cs arbitrary: s) (auto simp: perform_freed)

lemma perform_cached:
  "c \<noteq> Dispose \<Longrightarrow> map_of (urlCache (snd s)) p = Some u \<Longrightarrow>
   map_of (urlCache (snd (perform E P c s))) p = Some u"
  by (cases c; cases s)
    (auto simp: getURL_def update_conv' split: option.splits sum.splits prod.splits)

lemma run_cached:
  "Dispose \<notin> set cs \<Longrightarrow> map_of (urlCache (snd s)) p = Some u \<Longrightarrow>
   map_of (urlCache (snd (run E P cs s))) p = Some u"
proof (induction cs arbitrary: s)
  case Nil
  then show ?case by (simp add: run_def)
next
  case (Cons c cs)
  from Cons.prems have c: "c \<noteq> Dispose" and cs: "Dispose \<notin> set cs" by auto
  have "map_of (urlCache (snd (perform E P c s))) p = Some u"
    using perform_cached [OF c Cons.prems(2)] .
  from Cons.IH [OF cs this] show ?case by (simp add: run_def)
qed

lemma fold_revoke:
  "fold revokeObjectURL us w =
   w\<lparr>object_urls := filter (\<lambda>(k, b). k \<notin> set us) (object_urls w)\<rparr>"
proof (induction us arbitrary: w)
  case Nil
  then show ?case by simp
next
  case (Cons u us)
  have "filter (\<lambda>(k, b). k \<notin> set us) (filter (\<lambda>(k, b). k \<noteq> u) xs) =
        filter (\<lambda>(k, b). k \<notin> set (u # us)) xs" for xs :: "(string \<times> blob) list"
    by (induction xs) auto
  with Cons show ?case by (simp add: revokeObjectURL_def)
qed

section \<open>Opening\<close>

text \<open>
  The reader's constructor succeeds exactly on the well-formed archives; the helper's
  constructor then parses the reader's file list and keeps whatever the parser returns.
\<close>

lemma new_ZstdReader_iff:
  "new_ZstdReader E data =
     (if well_formed E data
      then Inr \<lparr>archive = data, index = layout_entries (the (read_layout E data)),
                dictionary = layout_dictionary (the (read_layout E data)), freed = False\<rparr>
      else Inl (Thrown OpenError))"
  by (auto simp: new_ZstdReader_def well_formed_def valid_index_def split: option.splits)

lemma new_ZstPackage_eq:
  "new_ZstPackage E P data =
     (if well_formed E data
      then (case JSON_parse P (decode P (file_list_json E
                    (map path (layout_entries (the (read_layout E data)))))) of
              Inl e \<Rightarrow> Inl e
            | Inr parsed \<Rightarrow>
                Inr \<lparr>reader = \<lparr>archive = data,
                                index = layout_entries (the (read_layout E data)),
                                dictionary = layout_dictionary (the (read_layout E data)),
                                freed = False\<rparr>,
                     fileIndex = parsed, urlCache = []\<rparr>)
      else Inl (Thrown OpenError))"
  by (simp add: new_ZstPackage_def new_ZstdReader_iff get_file_list_def)

lemma new_ZstPackage_Inr:
  assumes "new_ZstPackage E P data = Inr pkg"
  shows "well_formed E data \<and> archive (reader pkg) = data \<and> \<not> freed (reader pkg) \<and>
         map_option layout_entries (read_layout E data) = Some (index (reader pkg)) \<and>
         valid_index (length data) (index (reader pkg)) \<and> urlCache pkg = [] \<and>
         JSON_parse P (decode P (file_list_json E (map path (index (reader pkg))))) =
           Inr (fileIndex pkg)"
proof -
  from assms have wf: "well_formed E data"
    by (auto simp: new_ZstPackage_eq split: if_splits)
  then obtain l where l: "read_layout E data = Some l"
    by (auto simp: well_formed_def split: option.splits)
  from assms wf l show ?thesis
    by (auto simp: new_ZstPackage_eq well_formed_def split: sum.splits)
qed

lemma ensureWasm_world: "ensureWasm P w u = (r, w1) \<Longrightarrow> w1 = w\<lparr>wasmInit := Some r\<rparr>"
  by (auto simp: ensureWasm_def Let_def split: option.splits)

lemma open_bytes:
  assumes "src = ArrayBuffer a \<or> src = Uint8Array a" and "ensureWasm P w u = (boot, w1)"
  shows "open E P w src u =
           (case boot of
              Inl e \<Rightarrow> (Inl e, w1)
            | Inr x \<Rightarrow> (new_ZstPackage E P (contents w a), w1))"
proof -
  from ensureWasm_world [OF assms(2)] have "contents w1 a = contents w a"
    by (simp add: contents_def)
  with assms show ?thesis
    by (auto simp: open_def split: sum.splits)
qed


lemma ensureWasm_buffers: "ensureWasm P w u = (r, w1) \<Longrightarrow> buffers w1 = buffers w"
  by (auto simp: ensureWasm_def Let_def split: option.splits)

lemma example_open:
  "open stored_engine plain_platform example_world (Uint8Array 0) None =
     (Inr example_package, example_world\<lparr>wasmInit := Some (Inr ())\<rparr>)"
  by code_simp

section \<open>Extraction of a missing path\<close>

text \<open>
  Claim C1. For every package and every path that is not in its file index, \<open>getBytes\<close>
  fails with the helper's path-not-found error, the \<open>Error\<close> whose message is
  \<open>Path not found in package:\<close> followed by the path; it returns no buffer and leaves
  the heap, the URL store and the package as they were, so that an extraction of any
  path after the failed one does exactly what it would have done without it.
\<close>

theorem getBytes_missing_path:
  assumes "p \<notin> set (fileIndex pkg)"
  shows "getBytes E w pkg p = (Inl (Error (''Path not found in package: '' @ p)), w) \<and>
         (\<forall>q. getBytes E (snd (getBytes E w pkg p)) pkg q = getBytes E w pkg q)"
  using assms by (simp add: getBytes_missing)

theorem getBytes_missing_path_witness:
  "''c.bin'' \<notin> set (fileIndex example_package) \<and>
   getBytes stored_engine example_world example_package ''c.bin'' =
     (Inl (Error ''Path not found in package: c.bin''), example_world) \<and>
   fetched (getBytes stored_engine
              (snd (getBytes stored_engine example_world example_package ''c.bin''))
              example_package ''b.bin'') = Inr [9, 9]"
proof -
  have h: "''c.bin'' \<notin> set (fileIndex example_package)"
    by code_simp
  have b: "fetched (getBytes stored_engine example_world example_package ''b.bin'') = Inr [9, 9]"
    by code_simp
  from getBytes_missing_path [OF h, of stored_engine example_world] h b
  show ?thesis by simp
qed

section \<open>After dispose\<close>

text \<open>
  The claim C2 says that after \<open>dispose\<close> every call of \<open>list\<close> fails with a
  \<open>ClosedError\<close>. On the example package \<open>list\<close> after \<open>dispose\<close> returns the two paths.
\<close>

theorem list_after_dispose_counterexample:
  "list (snd (dispose example_world example_package)) = Inr [''a.bin'', ''b.bin''] \<and>
   list (snd (dispose example_world example_package)) \<noteq> Inl (Thrown ClosedError)"
  by code_simp

text \<open>
  Claim C2, amended. After \<open>dispose\<close>, and after any further calls, \<open>list\<close> still
  succeeds and returns the file index; \<open>getBytes\<close> fails: for a path outside the file
  index with the helper's path-not-found \<open>Error\<close>, for a path in the file index with
  the \<open>ClosedError\<close> of the released reader. Neither changes the heap or the URL store.
\<close>

theorem after_dispose:
  assumes "run E P cs (dispose w pkg) = (w', pkg')"
  shows "list pkg' = Inr (fileIndex pkg) \<and>
         getBytes E w' pkg' p =
           (Inl (if p \<in> set (fileIndex pkg) then Thrown ClosedError
                 else Error (''Path not found in package: '' @ p)), w')"
proof -
  have "freed (reader (snd (dispose w pkg)))"
    by (simp add: dispose_def free_def)
  from run_freed [OF this, of E P cs] assms have fr: "freed (reader pkg')"
    by simp
  have "fileIndex (snd (run E P cs (dispose w pkg))) = fileIndex (snd (dispose w pkg))"
    by (rule run_fileIndex)
  with assms have fi: "fileIndex pkg' = fileIndex pkg"
    by (simp add: dispose_def)
  show ?thesis
    using fr fi by (simp add: list_def getBytes_def assertPath_def extract_file_def)
qed

theorem after_dispose_witness:
  "run stored_engine plain_platform [GetBytes ''a.bin'']
       (dispose example_world example_package) =
     (example_world, example_package\<lparr>reader := free (reader example_package)\<rparr>) \<and>
   list (example_package\<lparr>reader := free (reader example_package)\<rparr>) =
     Inr [''a.bin'', ''b.bin''] \<and>
   getBytes stored_engine example_world
       (example_package\<lparr>reader := free (reader example_package)\<rparr>) ''b.bin'' =
     (Inl (Thrown ClosedError), example_world)"
proof -
  have h: "run stored_engine plain_platform [GetBytes ''a.bin'']
             (dispose example_world example_package) =
           (example_world, example_package\<lparr>reader := free (reader example_package)\<rparr>)"
    by code_simp
  have i: "fileIndex example_package = [''a.bin'', ''b.bin'']"
    by code_simp
  from after_dispose [OF h, of "''b.bin''"] h i show ?thesis by simp
qed

section \<open>Listing\<close>



section \<open>Repeated extraction\<close>

text \<open>
  Claim C4. Between two extractions of a path let the caller make any calls other than
  \<open>dispose\<close>, in any order, the same path again included, and overwrite any buffer,
  the ones that \<open>getBytes\<close> returned included: the second extraction yields the bytes
  (or the error) of the first. Every successful \<open>getBytes\<close> returns a buffer allocated
  by that very call, at an address no earlier buffer has, and changes nothing else.
\<close>

theorem getBytes_repeatable:
  assumes "Dispose \<notin> set cs" and "run E P cs (w, pkg) = (w1, pkg1)"
  shows "fetched (getBytes E w1 pkg1 p) = fetched (getBytes E w pkg p) \<and>
         (\<forall>a w'. getBytes E w pkg p = (Inr a, w') \<longrightarrow>
            a = length (buffers w) \<and> w' = w\<lparr>buffers := buffers w @ [contents w' a]\<rparr>)"
proof -
  from run_reader [OF assms(1), of E P "(w, pkg)"] assms(2)
  have r: "reader pkg1 = reader pkg" by simp
  from run_fileIndex [of E P cs "(w, pkg)"] assms(2)
  have f: "fileIndex pkg1 = fileIndex pkg" by simp
  have "\<forall>a w'. getBytes E w pkg p = (Inr a, w') \<longrightarrow>
            a = length (buffers w) \<and> w' = w\<lparr>buffers := buffers w @ [contents w' a]\<rparr>"
    using getBytes_result [of E w pkg p] by fastforce
  with fetched_getBytes [OF r f] show ?thesis by simp
qed

theorem getBytes_repeatable_witness:
  "Dispose \<notin> set [GetBytes ''b.bin'', Write 1 [7, 7], GetBytes ''a.bin'', GetURL ''b.bin''] \<and>
   fetched (getBytes stored_engine example_world example_package ''b.bin'') = Inr [9, 9] \<and>
   fetched (getBytes stored_engine
     (fst (run stored_engine plain_platform
            [GetBytes ''b.bin'', Write 1 [7, 7], GetBytes ''a.bin'', GetURL ''b.bin'']
            (example_world, example_package)))
     (snd (run stored_engine plain_platform
            [GetBytes ''b.bin'', Write 1 [7, 7], GetBytes ''a.bin'', GetURL ''b.bin'']
            (example_world, example_package))) ''b.bin'') = Inr [9, 9] \<and>
   contents (fst (run stored_engine plain_platform
            [GetBytes ''b.bin'', Write 1 [7, 7], GetBytes ''a.bin'', GetURL ''b.bin'']
            (example_world, example_package))) 1 = [7, 7]"
proof -
  have h: "Dispose \<notin> set [GetBytes ''b.bin'', Write 1 [7, 7], GetBytes ''a.bin'', GetURL ''b.bin'']"
    by simp
  have b: "fetched (getBytes stored_engine example_world example_package ''b.bin'') = Inr [9, 9]"
    by code_simp
  have c: "contents (fst (run stored_engine plain_platform
            [GetBytes ''b.bin'', Write 1 [7, 7], GetBytes ''a.bin'', GetURL ''b.bin'']
            (example_world, example_package))) 1 = [7, 7]"
    by code_simp
  have r: "run stored_engine plain_platform
            [GetBytes ''b.bin'', Write 1 [7, 7], GetBytes ''a.bin'', GetURL ''b.bin'']
            (example_world, example_package) =
           (fst (run stored_engine plain_platform
            [GetBytes ''b.bin'', Write 1 [7, 7], GetBytes ''a.bin'', GetURL ''b.bin'']
            (example_world, example_package)),
            snd (run stored_engine plain_platform
            [GetBytes ''b.bin'', Write 1 [7, 7], GetBytes ''a.bin'', GetURL ''b.bin'']
            (example_world, example_package)))"
    by simp
  from getBytes_repeatable [OF h r, where p = "''b.bin''"] h b c
  show ?thesis by simp
qed

section \<open>Opening validates eagerly\<close>

text \<open>
  The claim C5 says that \<open>open\<close> of a byte buffer returns a ready package or an
  \<open>OpenError\<close>. On a platform whose wasm module fails to load, \<open>open\<close> of the well-formed
  example archive returns neither: it fails with the error of the bootstrap.
\<close>

theorem open_bootstrap_counterexample:
  "well_formed stored_engine (contents example_world 0) \<and>
   open stored_engine unloaded_platform example_world (Uint8Array 0) None =
     (Inl (Rejected ''wasm''), example_world\<lparr>wasmInit := Some (Inl (Rejected ''wasm''))\<rparr>)"
  by code_simp

text \<open>
  Claim C5, amended. \<open>open\<close> of a byte buffer never partially succeeds: it returns a
  package or one error, and all it changes is the memo of the bootstrap. When the
  bootstrap fails, \<open>open\<close> fails with the bootstrap's error, whatever the archive. When
  it succeeds, all index validation happens inside \<open>open\<close>: an archive that is not well
  formed (layout unreadable, magic or version not the expected one, a range out of
  bounds, two ranges overlapping, a path twice) is rejected with \<open>OpenError\<close>; for a well
  formed one the file list is parsed at once, and \<open>open\<close> fails with the parser's error
  or returns the package with the parser's result as its file index. Every package that
  \<open>open\<close> returns has a live reader over the validated index of the caller's bytes and
  an empty URL cache, and it is ready as soon as the platform reads back the reader's
  serialisation of this archive's paths.
\<close>

theorem open_outcomes:
  assumes "src = ArrayBuffer a \<or> src = Uint8Array a"
    and "ensureWasm P w u = (boot, w1)"
  shows "w1 = w\<lparr>wasmInit := Some boot\<rparr> \<and>
         (\<forall>e. boot = Inl e \<longrightarrow> open E P w src u = (Inl e, w1)) \<and>
         (boot = Inr () \<and> \<not> well_formed E (contents w a) \<longrightarrow>
            open E P w src u = (Inl (Thrown OpenError), w1)) \<and>
         (\<forall>l. boot = Inr () \<and> well_formed E (contents w a) \<and>
              read_layout E (contents w a) = Some l \<longrightarrow>
            open E P w src u =
              ((case JSON_parse P (decode P (file_list_json E (map path (layout_entries l)))) of
                  Inl e \<Rightarrow> Inl e
                | Inr parsed \<Rightarrow>
                    Inr \<lparr>reader = \<lparr>archive = contents w a, index = layout_entries l,
                                    dictionary = layout_dictionary l, freed = False\<rparr>,
                         fileIndex = parsed, urlCache = []\<rparr>), w1)) \<and>
         (\<forall>pkg w'. open E P w src u = (Inr pkg, w') \<longrightarrow>
            w' = w1 \<and> boot = Inr () \<and> well_formed E (contents w a) \<and>
            archive (reader pkg) = contents w a \<and> \<not> freed (reader pkg) \<and>
            map_option layout_entries (read_layout E (contents w a)) =
              Some (index (reader pkg)) \<and>
            valid_index (length (contents w a)) (index (reader pkg)) \<and>
            urlCache pkg = [] \<and>
            JSON_parse P (decode P (file_list_json E (map path (index (reader pkg))))) =
              Inr (fileIndex pkg) \<and>
            (reads_back E P (map path (index (reader pkg))) \<longrightarrow>
               ready E (contents w a) pkg))"
proof -
  note o = open_bytes [OF assms, of E]
  have 1: "w1 = w\<lparr>wasmInit := Some boot\<rparr>"
    by (rule ensureWasm_world [OF assms(2)])
  have 2: "open E P w src u = (Inl e, w1)" if "boot = Inl e" for e
    using o that by simp
  have 3: "open E P w src u = (Inl (Thrown OpenError), w1)"
    if "boot = Inr () \<and> \<not> well_formed E (contents w a)"
    using o that by (simp add: new_ZstPackage_eq)
  have 4: "open E P w src u =
              ((case JSON_parse P (decode P (file_list_json E (map path (layout_entries l)))) of
                  Inl e \<Rightarrow> Inl e
                | Inr parsed \<Rightarrow>
                    Inr \<lparr>reader = \<lparr>archive = contents w a, index = layout_entries l,
                                    dictionary = layout_dictionary l, freed = False\<rparr>,
                         fileIndex = parsed, urlCache = []\<rparr>), w1)"
    if "boot = Inr () \<and> well_formed E (contents w a) \<and> read_layout E (contents w a) = Some l"
    for l
    using o that by (auto simp: new_ZstPackage_eq split: sum.splits)
  have 5: "w' = w1 \<and> boot = Inr () \<and> well_formed E (contents w a) \<and>
            archive (reader pkg) = contents w a \<and> \<not> freed (reader pkg) \<and>
            map_option layout_entries (read_layout E (contents w a)) =
              Some (index (reader pkg)) \<and>
            valid_index (length (contents w a)) (index (reader pkg)) \<and>
            urlCache pkg = [] \<and>
            JSON_parse P (decode P (file_list_json E (map path (index (reader pkg))))) =
              Inr (fileIndex pkg) \<and>
            (reads_back E P (map path (index (reader pkg))) \<longrightarrow>
               ready E (contents w a) pkg)"
    if op: "open E P w src u = (Inr pkg, w')" for pkg w'
  proof -
    from o op have b: "boot = Inr ()" and w: "w' = w1"
      and n: "new_ZstPackage E P (contents w a) = Inr pkg"
      by (auto split: sum.splits)
    from new_ZstPackage_Inr [OF n] b w show ?thesis
      by (auto simp: ready_def reads_back_def)
  qed
  from 1 2 3 4 5 show ?thesis by blast
qed

theorem open_outcomes_witness:
  "ensureWasm plain_platform example_world None =
     (Inr (), example_world\<lparr>wasmInit := Some (Inr ())\<rparr>) \<and>
   open stored_engine plain_platform example_world (Uint8Array 0) None =
     (Inr example_package, example_world\<lparr>wasmInit := Some (Inr ())\<rparr>) \<and>
   ready stored_engine (contents example_world 0) example_package \<and>
   \<not> well_formed stored_engine (contents (example_world\<lparr>buffers := [truncated_archive]\<rparr>) 0) \<and>
   open stored_engine plain_platform (example_world\<lparr>buffers := [truncated_archive]\<rparr>)
       (ArrayBuffer 0) None =
     (Inl (Thrown OpenError),
      example_world\<lparr>buffers := [truncated_archive], wasmInit := Some (Inr ())\<rparr>) \<and>
   ensureWasm unloaded_platform example_world None =
     (Inl (Rejected ''wasm''), example_world\<lparr>wasmInit := Some (Inl (Rejected ''wasm''))\<rparr>) \<and>
   open stored_engine unloaded_platform (example_world\<lparr>buffers := [truncated_archive]\<rparr>)
       (ArrayBuffer 0) None =
     (Inl (Rejected ''wasm''),
      example_world\<lparr>buffers := [truncated_archive],
                     wasmInit := Some (Inl (Rejected ''wasm''))\<rparr>)"
proof -
  have s: "Uint8Array 0 = ArrayBuffer 0 \<or> Uint8Array 0 = Uint8Array 0"
    and t: "ArrayBuffer 0 = ArrayBuffer 0 \<or> ArrayBuffer 0 = Uint8Array 0"
    by simp_all
  have i: "ensureWasm plain_platform example_world None =
             (Inr (), example_world\<lparr>wasmInit := Some (Inr ())\<rparr>)"
    by code_simp
  have j: "ensureWasm plain_platform (example_world\<lparr>buffers := [truncated_archive]\<rparr>) None =
             (Inr (), example_world\<lparr>buffers := [truncated_archive], wasmInit := Some (Inr ())\<rparr>)"
    by code_simp
  have k: "ensureWasm unloaded_platform (example_world\<lparr>buffers := [truncated_archive]\<rparr>) None =
             (Inl (Rejected ''wasm''),
              example_world\<lparr>buffers := [truncated_archive],
                             wasmInit := Some (Inl (Rejected ''wasm''))\<rparr>)"
    by code_simp
  have k': "ensureWasm unloaded_platform example_world None =
     (Inl (Rejected ''wasm''), example_world\<lparr>wasmInit := Some (Inl (Rejected ''wasm''))\<rparr>)"
    by code_simp
  have nwf: "\<not> well_formed stored_engine
               (contents (example_world\<lparr>buffers := [truncated_archive]\<rparr>) 0)"
    by code_simp
  from open_outcomes [OF s i, of stored_engine] example_open example_reads_back
  have r: "ready stored_engine (contents example_world 0) example_package"
    by blast
  from open_outcomes [OF t j, of stored_engine] nwf
  have o: "open stored_engine plain_platform (example_world\<lparr>buffers := [truncated_archive]\<rparr>)
          (ArrayBuffer 0) None =
        (Inl (Thrown OpenError),
         example_world\<lparr>buffers := [truncated_archive], wasmInit := Some (Inr ())\<rparr>)"
    by blast
  from open_outcomes [OF t k, of stored_engine]
  have b: "open stored_engine unloaded_platform (example_world\<lparr>buffers := [truncated_archive]\<rparr>)
       (ArrayBuffer 0) None =
     (Inl (Rejected ''wasm''),
      example_world\<lparr>buffers := [truncated_archive],
                     wasmInit := Some (Inl (Rejected ''wasm''))\<rparr>)"
    by blast
  from i k' nwf r o b example_open show ?thesis by simp
qed

section \<open>Opening leaves the caller's buffer alone\<close>

text \<open>
  Claim C7. Whether \<open>open\<close> succeeds or fails, every buffer that existed before the call
  holds the bytes it held before. When the source is an \<open>ArrayBuffer\<close> or a
  \<open>Uint8Array\<close> the heap is the same after the call, the caller's buffer in particular;
  when it is a URL the only change is the new buffer with the fetched body.
\<close>

theorem open_keeps_buffers:
  assumes "open E P w src u = (res, w')"
  shows "take (length (buffers w)) (buffers w') = buffers w \<and>
         (\<forall>a. a < length (buffers w) \<longrightarrow> contents w' a = contents w a) \<and>
         (\<forall>a. src = ArrayBuffer a \<or> src = Uint8Array a \<longrightarrow>
              buffers w' = buffers w \<and> contents w' a = contents w a)"
proof -
  obtain r w1 where e: "ensureWasm P w u = (r, w1)"
    by (cases "ensureWasm P w u")
  from ensureWasm_buffers [OF e] have b1: "buffers w1 = buffers w" .
  have "buffers w' = buffers w \<or> (\<exists>buf. buffers w' = buffers w @ [buf])"
    using assms e b1
    by (auto simp: open_def alloc_def split: sum.splits source.splits if_splits)
  moreover have "\<forall>a. src = ArrayBuffer a \<or> src = Uint8Array a \<longrightarrow> buffers w' = buffers w"
    using assms e b1
    by (auto simp: open_def split: sum.splits)
  ultimately show ?thesis
    by (auto simp: contents_def nth_append)
qed

theorem open_keeps_buffers_witness:
  "open stored_engine plain_platform example_world (Uint8Array 0) None =
     (Inr example_package, example_world\<lparr>wasmInit := Some (Inr ())\<rparr>) \<and>
   contents (example_world\<lparr>wasmInit := Some (Inr ())\<rparr>) 0 = example_archive \<and>
   buffers (example_world\<lparr>wasmInit := Some (Inr ())\<rparr>) = buffers example_world"
proof -
  have c: "contents example_world 0 = example_archive"
    by (simp add: contents_def example_world_def)
  from open_keeps_buffers [OF example_open] c example_open show ?thesis by simp
qed

section \<open>Object URLs\<close>

lemma getBlob_result:
  "getBlob E w pkg p = (Inl e, w') \<Longrightarrow> w' = w"
  using getBytes_result [of E w pkg p]
  by (cases "getBytes E w pkg p") (auto simp: getBlob_def split: sum.splits)

text \<open>
  Claim C8. Once \<open>getURL\<close> has returned a URL for a path, a later \<open>getURL\<close> of that
  path, directly afterwards or after any calls other than \<open>dispose\<close>, returns the same
  URL and changes neither the URL store, nor the heap, nor the package: no object URL is
  created. A failing \<open>getURL\<close> creates and caches nothing. \<open>dispose\<close> empties the cache
  and removes from the URL store exactly the URLs that were cached.
\<close>

theorem getURL_cached:
  "(\<forall>url w1 pkg1 cs w2 pkg2.
      getURL E P w pkg p = (Inr url, w1, pkg1) \<and> Dispose \<notin> set cs \<and>
      run E P cs (w1, pkg1) = (w2, pkg2) \<longrightarrow>
      getURL E P w2 pkg2 p = (Inr url, w2, pkg2)) \<and>
   (\<forall>e w1 pkg1. getURL E P w pkg p = (Inl e, w1, pkg1) \<longrightarrow> w1 = w \<and> pkg1 = pkg) \<and>
   (\<forall>w' pkg'. dispose w pkg = (w', pkg') \<longrightarrow>
      urlCache pkg' = [] \<and>
      object_urls w' = filter (\<lambda>(k, b). k \<notin> snd ` set (urlCache pkg)) (object_urls w) \<and>
      (\<forall>url \<in> snd ` set (urlCache pkg). url \<notin> fst ` set (object_urls w')))"
proof -
  have first: "getURL E P w2 pkg2 p = (Inr url, w2, pkg2)"
    if g: "getURL E P w pkg p = (Inr url, w1, pkg1)" and d: "Dispose \<notin> set cs"
      and r: "run E P cs (w1, pkg1) = (w2, pkg2)"
    for url w1 pkg1 cs w2 pkg2
  proof -
    from g have "map_of (urlCache pkg1) p = Some url"
      by (auto simp: getURL_def update_conv' split: option.splits sum.splits prod.splits)
    from run_cached [OF d, of "(w1, pkg1)" p url E P] this r
    have "map_of (urlCache pkg2) p = Some url" by simp
    then show ?thesis by (simp add: getURL_def)
  qed
  have second: "urlCache pkg' = [] \<and>
      object_urls w' = filter (\<lambda>(k, b). k \<notin> snd ` set (urlCache pkg)) (object_urls w) \<and>
      (\<forall>url \<in> snd ` set (urlCache pkg). url \<notin> fst ` set (object_urls w'))"
    if "dispose w pkg = (w', pkg')" for w' pkg'
    using that by (force simp: dispose_def fold_revoke)
  have third: "w1 = w \<and> pkg1 = pkg"
    if "getURL E P w pkg p = (Inl e, w1, pkg1)" for e w1 pkg1
    using that getBlob_result [of E w pkg p]
    by (auto simp: getURL_def split: option.splits sum.splits prod.splits)
  from first second third show ?thesis by blast
qed

theorem getURL_cached_witness:
  "getURL stored_engine plain_platform example_world example_package ''a.bin'' =
     (Inr ''blob:0'',
      example_world\<lparr>buffers := [example_archive, [1, 2, 3]],
        object_urls := [(''blob:0'', \<lparr>blob_data = [1, 2, 3],
                                      blob_type = JString ''application/octet-stream''\<rparr>)],
        minted := 1\<rparr>,
      example_package\<lparr>urlCache := [(''a.bin'', ''blob:0'')]\<rparr>) \<and>
   getURL stored_engine plain_platform
      (example_world\<lparr>buffers := [example_archive, [1, 2, 3]],
        object_urls := [(''blob:0'', \<lparr>blob_data = [1, 2, 3],
                                      blob_type = JString ''application/octet-stream''\<rparr>)],
        minted := 1\<rparr>)
      (example_package\<lparr>urlCache := [(''a.bin'', ''blob:0'')]\<rparr>) ''a.bin'' =
     (Inr ''blob:0'',
      example_world\<lparr>buffers := [example_archive, [1, 2, 3]],
        object_urls := [(''blob:0'', \<lparr>blob_data = [1, 2, 3],
                                      blob_type = JString ''application/octet-stream''\<rparr>)],
        minted := 1\<rparr>,
      example_package\<lparr>urlCache := [(''a.bin'', ''blob:0'')]\<rparr>) \<and>
   object_urls (fst (dispose
      (example_world\<lparr>buffers := [example_archive, [1, 2, 3]],
        object_urls := [(''blob:0'', \<lparr>blob_data = [1, 2, 3],
                                      blob_type = JString ''application/octet-stream''\<rparr>)],
        minted := 1\<rparr>)
      (example_package\<lparr>urlCache := [(''a.bin'', ''blob:0'')]\<rparr>))) = []"
proof -
  let ?w = "example_world\<lparr>buffers := [example_archive, [1, 2, 3]],
        object_urls := [(''blob:0'', \<lparr>blob_data = [1, 2, 3],
                                      blob_type = JString ''application/octet-stream''\<rparr>)],
        minted := 1\<rparr>"
  let ?pkg = "example_package\<lparr>urlCache := [(''a.bin'', ''blob:0'')]\<rparr>"
  have g: "getURL stored_engine plain_platform example_world example_package ''a.bin'' =
             (Inr ''blob:0'', ?w, ?pkg)"
    by code_simp
  have r: "Dispose \<notin> set [] \<and> run stored_engine plain_platform [] (?w, ?pkg) = (?w, ?pkg)"
    by (simp add: run_def)
  have d: "object_urls (fst (dispose ?w ?pkg)) = []"
    by code_simp
  from getURL_cached [of stored_engine plain_platform example_world example_package "''a.bin''"]
  have "getURL stored_engine plain_platform ?w ?pkg ''a.bin'' = (Inr ''blob:0'', ?w, ?pkg)"
    using g r by blast
  with g d show ?thesis by simp
qed

section \<open>Text\<close>

text \<open>
  Claim C10. \<open>getText\<close> fails exactly when \<open>getBytes\<close> fails, with the same error, for a
  path outside the file index with the path-not-found \<open>Error\<close>; when \<open>getBytes\<close>
  returns a buffer, \<open>getText\<close> returns the decoding of exactly the bytes in that buffer.
  Both leave the same heap behind.
\<close>

theorem getText_decodes_getBytes:
  "(\<forall>e. fst (getText E P w pkg p) = Inl e \<longleftrightarrow> fst (getBytes E w pkg p) = Inl e) \<and>
   (\<forall>bs. fetched (getBytes E w pkg p) = Inr bs \<longrightarrow>
      fst (getText E P w pkg p) = Inr (decode P bs)) \<and>
   snd (getText E P w pkg p) = snd (getBytes E w pkg p) \<and>
   (p \<notin> set (fileIndex pkg) \<longrightarrow>
      fst (getText E P w pkg p) = Inl (Error (''Path not found in package: '' @ p)))"
proof -
  have "p \<notin> set (fileIndex pkg) \<longrightarrow>
      fst (getText E P w pkg p) = Inl (Error (''Path not found in package: '' @ p))"
    by (simp add: getText_def getBytes_missing)
  moreover have "(\<forall>e. fst (getText E P w pkg p) = Inl e \<longleftrightarrow> fst (getBytes E w pkg p) = Inl e) \<and>
   (\<forall>bs. fetched (getBytes E w pkg p) = Inr bs \<longrightarrow>
      fst (getText E P w pkg p) = Inr (decode P bs)) \<and>
   snd (getText E P w pkg p) = snd (getBytes E w pkg p)"
    by (cases "getBytes E w pkg p") (auto simp: getText_def fetched_def split: sum.splits)
  ultimately show ?thesis by simp
qed

theorem getText_decodes_getBytes_witness:
  "fetched (getBytes stored_engine example_world example_package ''b.bin'') = Inr [9, 9] \<and>
   fst (getText stored_engine plain_platform example_world example_package ''b.bin'') =
     Inr (decode plain_platform [9, 9]) \<and>
   ''c.bin'' \<notin> set (fileIndex example_package) \<and>
   fst (getText stored_engine plain_platform example_world example_package ''c.bin'') =
     Inl (Error ''Path not found in package: c.bin'')"
proof -
  have b: "fetched (getBytes stored_engine example_world example_package ''b.bin'') = Inr [9, 9]"
    by code_simp
  have c: "''c.bin'' \<notin> set (fileIndex example_package)"
    by code_simp
  from getText_decodes_getBytes [of stored_engine plain_platform example_world example_package
      "''b.bin''"] b
  have 1: "fst (getText stored_engine plain_platform example_world example_package ''b.bin'') =
     Inr (decode plain_platform [9, 9])" by blast
  from getText_decodes_getBytes [of stored_engine plain_platform example_world example_package
      "''c.bin''"] c
  have 2: "fst (getText stored_engine plain_platform example_world example_package ''c.bin'') =
     Inl (Error ''Path not found in package: c.bin'')" by simp
  from b c 1 2 show ?thesis by simp
qed

section \<open>Encoding\<close>

text \<open>
  The claim C6 says that encoding files, opening the result and extracting a path gives
  back that path's bytes. For the two files of the example it does not give \<open>9, 9\<close> for
  \<open>b.bin\<close>.
\<close>

theorem roundtrip_counterexample:
  "roundtrip stored_engine plain_platform example_world
     [(''a.bin'', [1, 2, 3]), (''b.bin'', [9, 9])] ''b.bin'' \<noteq> Inr [9, 9]"
  by (simp add: roundtrip_def encode_def)

text \<open>
  Claim C6, amended. \<open>encode\<close> is a stub of the read-only helper: for every set of files it
  throws the \<open>Error\<close> that says so and produces no archive, so that encoding, opening and
  extracting fails with that error at its first step.
\<close>

theorem encode_not_implemented:
  "encode files =
     Inl (Error (''Encode not implemented '' @ [CHR 0xE2, CHR 0x80, CHR 0x94] @
                 '' build wasm for zstd-encoder and wire it up here.'')) \<and>
   roundtrip E P w files p = encode files"
  by (simp add: roundtrip_def encode_def)

theorem encode_not_implemented_witness:
  "roundtrip stored_engine plain_platform example_world
     [(''a.bin'', [1, 2, 3]), (''b.bin'', [9, 9])] ''b.bin'' =
   Inl (Error (''Encode not implemented '' @ [CHR 0xE2, CHR 0x80, CHR 0x94] @
               '' build wasm for zstd-encoder and wire it up here.''))"
  using encode_not_implemented [of "[(''a.bin'', [1, 2, 3]), (''b.bin'', [9, 9])]"
      stored_engine plain_platform example_world "''b.bin''"]
  by simp

end
